theory Spec2Isabelle
  imports Complex_Main "HOL-Library.Char_ord" "HOL-Library.List_Lexorder" "HOL-Library.AList"
begin

section \<open>Strings\<close>

text \<open>
  Skill names, track names and cache keys are JavaScript strings; they are modelled as
  \<open>string\<close> (lists of 8-bit characters). \<open>String.prototype.toLowerCase\<close> is modelled on
  the ASCII letters, which covers every name of the shipped tables; the theorems below
  use it only as a function from names to names.
\<close>

definition toLowerChar :: "char \<Rightarrow> char" where
  "toLowerChar c =
     (if (65::nat) \<le> of_char c \<and> of_char c \<le> (90::nat)
      then (case c of Char b0 b1 b2 b3 b4 b5 b6 b7 \<Rightarrow> Char b0 b1 b2 b3 b4 True b6 b7)
      else c)"

definition toLowerCase :: "string \<Rightarrow> string" where
  "toLowerCase s = map toLowerChar s"

section \<open>Demand categories (validationService.js, constants.js)\<close>

text \<open>
  \<open>CONSTANTS.DEMAND_CATEGORIES\<close> and \<open>CONSTANTS.DEMAND_THRESHOLDS\<close>. The combined score
  is \<open>githubCount + soCount * 0.5\<close>, a number; it is modelled as a real.
\<close>

datatype demandCategory = LOW | MEDIUM | HIGH

definition DEMAND_THRESHOLDS_HIGH :: real where
  "DEMAND_THRESHOLDS_HIGH = 1000"

definition DEMAND_THRESHOLDS_MEDIUM :: real where
  "DEMAND_THRESHOLDS_MEDIUM = 300"

definition categorizeDemand :: "real \<Rightarrow> demandCategory" where
  "categorizeDemand combinedScore =
     (if combinedScore \<ge> DEMAND_THRESHOLDS_HIGH then HIGH
      else if combinedScore \<ge> DEMAND_THRESHOLDS_MEDIUM then MEDIUM
      else LOW)"

section \<open>The JavaScript host\<close>








section \<open>Prerequisite graph (prerequisites.js)\<close>













subsection \<open>getLearningOrder\<close>

text \<open>
  \<open>new Set(skillNames)\<close>: the names are added one by one, a name already present is not
  added again, and the set iterates in insertion order.
\<close>

definition newSet :: "string list \<Rightarrow> string list" where
  "newSet skillNames = fold (\<lambda>s acc. if s \<in> set acc then acc else acc @ [s]) skillNames []"

record orderState =
  ordered :: "string list"
  remaining :: "string list"
  processed :: "string set"
  addedThisRound :: bool










text \<open>
  For the proofs: the two loops where every read of the prerequisites of an input skill
  gives an array, \<open>pre skill\<close>; no exception arises then.
\<close>

fun forOfArr ::
  "(string \<Rightarrow> string list) \<Rightarrow> string list \<Rightarrow> string list \<Rightarrow> orderState \<Rightarrow> orderState" where
  "forOfArr pre skillNames [] st = st"
| "forOfArr pre skillNames (skill # rest) st =
     (let allPrereqsMet =
            list_all (\<lambda>prereq. prereq \<in> processed st \<or> prereq \<notin> set skillNames) (pre skill)
      in if allPrereqsMet
         then forOfArr pre skillNames rest
                (st\<lparr>ordered := ordered st @ [skill],
                    processed := insert skill (processed st),
                    remaining := removeAll skill (remaining st),
                    addedThisRound := True\<rparr>)
         else forOfArr pre skillNames rest st)"

function whileLoopArr ::
  "(string \<Rightarrow> string list) \<Rightarrow> string list \<Rightarrow> nat \<Rightarrow> nat \<Rightarrow> orderState \<Rightarrow> nat \<times> orderState" where
  "whileLoopArr pre skillNames maxIterations iterations st =
     (if remaining st \<noteq> [] \<and> iterations < maxIterations
      then (let st' = forOfArr pre skillNames (remaining st) (st\<lparr>addedThisRound := False\<rparr>)
            in if \<not> addedThisRound st' \<and> remaining st' \<noteq> []
               then (iterations + 1, st'\<lparr>ordered := ordered st' @ sort (remaining st')\<rparr>)
               else whileLoopArr pre skillNames maxIterations (iterations + 1) st')
      else (iterations, st))"
  by pat_completeness auto
termination
  by (relation "measure (\<lambda>(pre, names, m, i, st). m - i)") auto

declare whileLoopArr.simps [simp del]

text \<open>
  The invariants of the two loops. \<open>baseInv\<close>: the placed and the remaining skills are
  the input skills, each once. \<open>orderInv\<close>: \<open>processed\<close> holds the placed skills, and
  every placed skill comes after those of its prerequisites that are in the input.
\<close>

definition baseInv :: "string list \<Rightarrow> orderState \<Rightarrow> bool" where
  "baseInv names st \<longleftrightarrow>
     distinct (ordered st @ remaining st) \<and> set (ordered st) \<union> set (remaining st) = set names"

definition orderInv :: "(string \<Rightarrow> string list) \<Rightarrow> string list \<Rightarrow> orderState \<Rightarrow> bool" where
  "orderInv pre names st \<longleftrightarrow>
     processed st = set (ordered st) \<and>
     (\<forall>s\<in>set (ordered st). \<forall>p\<in>set (pre s).
        p \<in> set names \<longrightarrow> p \<in> set (takeWhile (\<lambda>x. x \<noteq> s) (ordered st)))"






section \<open>Evidence cache (cacheService.js)\<close>

text \<open>
  The cache is a JavaScript \<open>Map\<close> from key to entry. A \<open>Map\<close> iterates in insertion
  order, \<open>Map.prototype.set\<close> on a key that is present replaces the entry where it
  stands and on a new key appends it, so the map is modelled as an association list:
  \<open>has\<close> is \<open>map_of \<dots> \<noteq> None\<close>, \<open>delete\<close> is \<open>AList.delete\<close> and \<open>set\<close> is \<open>AList.update\<close>.
  A stored value is any JavaScript value; \<open>None\<close> stands for \<open>null\<close>. \<open>Date.now()\<close> is an
  argument of each operation, in milliseconds (the two readings of the clock within one
  \<open>set\<close> are taken to be equal).
\<close>

record 'v entry =
  entryValue :: "'v option"
  expiry :: int
  createdAt :: int

record 'v CacheService =
  cache :: "(string \<times> 'v entry) list"
  maxSize :: int
  defaultTTL :: int

definition newCache :: "int \<Rightarrow> int \<Rightarrow> 'v CacheService" where
  "newCache capacity ttl = \<lparr>cache = [], maxSize = capacity, defaultTTL = ttl\<rparr>"

text \<open>\<open>Array.prototype.join\<close>\<close>

fun join :: "string \<Rightarrow> string list \<Rightarrow> string" where
  "join sep [] = []"
| "join sep [x] = x"
| "join sep (x # y # ys) = x @ sep @ join sep (y # ys)"

text \<open>
  \<open>generateKey(prefix, params)\<close>. The parameter object is an association list of its
  fields in insertion order, each value given as the string the template literal renders
  it to; an object has no field twice.
\<close>

definition generateKey :: "string \<Rightarrow> (string \<times> string) list \<Rightarrow> string" where
  "generateKey prefix params =
     (let sortedParams =
            join ''|''
              (map (\<lambda>key. key @ '':'' @ (case map_of params key of
                                            None \<Rightarrow> ''undefined'' | Some v \<Rightarrow> v))
                 (sort (map fst params)))
      in prefix @ '':'' @ sortedParams)"

text \<open>
  \<open>set(key, value, ttlMs = null)\<close>; \<open>ttlMs || this.defaultTTL\<close> takes the default for
  \<open>null\<close> and for \<open>0\<close>. The function returns \<open>value\<close>; the model returns the new cache.
\<close>

definition set_cache ::
  "'v CacheService \<Rightarrow> string \<Rightarrow> 'v option \<Rightarrow> int option \<Rightarrow> int \<Rightarrow> 'v CacheService" where
  "set_cache c key v ttlMs now =
     (let expiry = now + (case ttlMs of
                            None \<Rightarrow> defaultTTL c
                          | Some t \<Rightarrow> if t = 0 then defaultTTL c else t);
          kept = (if int (length (cache c)) \<ge> maxSize c \<and> map_of (cache c) key = None
                  then (case cache c of
                          [] \<Rightarrow> []
                        | (firstKey, _) # _ \<Rightarrow> AList.delete firstKey (cache c))
                  else cache c)
      in c\<lparr>cache := AList.update key
                        \<lparr>entryValue = v, expiry = expiry, createdAt = now\<rparr> kept\<rparr>)"

text \<open>\<open>get(key)\<close>: the value read (\<open>None\<close> for \<open>null\<close>) and the new cache.\<close>

definition get :: "'v CacheService \<Rightarrow> string \<Rightarrow> int \<Rightarrow> 'v option \<times> 'v CacheService" where
  "get c key now =
     (case map_of (cache c) key of
        None \<Rightarrow> (None, c)
      | Some entry \<Rightarrow>
          if now > expiry entry
          then (None, c\<lparr>cache := AList.delete key (cache c)\<rparr>)
          else (entryValue entry,
                c\<lparr>cache := AList.update key entry (AList.delete key (cache c))\<rparr>))"

text \<open>Sequences of operations, each with the time at which it runs.\<close>

datatype 'v cacheOp = SetOp string "'v option" "int option" | GetOp string

fun step :: "'v CacheService \<Rightarrow> 'v cacheOp \<times> int \<Rightarrow> 'v CacheService" where
  "step c (SetOp key v ttlMs, now) = set_cache c key v ttlMs now"
| "step c (GetOp key, now) = snd (get c key now)"

definition run :: "'v CacheService \<Rightarrow> ('v cacheOp \<times> int) list \<Rightarrow> 'v CacheService" where
  "run c ops = foldl step c ops"






definition keys :: "'v CacheService \<Rightarrow> string list" where
  "keys c = map fst (cache c)"



section \<open>Roadmap catalog (roadmaps.js)\<close>

text \<open>
  A catalog entry has a name, a weight, a category and, in the fullstack track, a section.
  \<open>ROADMAPS\<close> maps a track to its roadmap; as for \<open>PREREQUISITES\<close>, the object literal is an
  association list over its own keys.
\<close>

record coreSkill =
  name :: string
  weight :: nat
  category :: string
  skillSection :: "string option"

record roadmap =
  roadmapName :: string
  description :: string
  coreSkills :: "coreSkill list"

definition coreSkills_frontend :: "coreSkill list" where
  "coreSkills_frontend =
    [\<lparr>name = ''HTML'', weight = 10, category = ''fundamentals'', skillSection = None\<rparr>,
     \<lparr>name = ''CSS'', weight = 10, category = ''fundamentals'', skillSection = None\<rparr>,
     \<lparr>name = ''JavaScript'', weight = 10, category = ''fundamentals'', skillSection = None\<rparr>,
     \<lparr>name = ''Responsive Design'', weight = 9, category = ''fundamentals'', skillSection = None\<rparr>,
     \<lparr>name = ''Browser DevTools'', weight = 9, category = ''fundamentals'', skillSection = None\<rparr>,
     \<lparr>name = ''ES6+'', weight = 8, category = ''javascript'', skillSection = None\<rparr>,
     \<lparr>name = ''Async/Await'', weight = 8, category = ''javascript'', skillSection = None\<rparr>,
     \<lparr>name = ''Promises'', weight = 8, category = ''javascript'', skillSection = None\<rparr>,
     \<lparr>name = ''DOM Manipulation'', weight = 8, category = ''javascript'', skillSection = None\<rparr>,
     \<lparr>name = ''Event Handling'', weight = 7, category = ''javascript'', skillSection = None\<rparr>,
     \<lparr>name = ''React'', weight = 9, category = ''frameworks'', skillSection = None\<rparr>,
     \<lparr>name = ''Component Architecture'', weight = 8, category = ''frameworks'', skillSection = None\<rparr>,
     \<lparr>name = ''State Management'', weight = 8, category = ''frameworks'', skillSection = None\<rparr>,
     \<lparr>name = ''React Hooks'', weight = 8, category = ''frameworks'', skillSection = None\<rparr>,
     \<lparr>name = ''CSS Flexbox'', weight = 8, category = ''styling'', skillSection = None\<rparr>,
     \<lparr>name = ''CSS Grid'', weight = 8, category = ''styling'', skillSection = None\<rparr>,
     \<lparr>name = ''Sass/SCSS'', weight = 6, category = ''styling'', skillSection = None\<rparr>,
     \<lparr>name = ''CSS-in-JS'', weight = 6, category = ''styling'', skillSection = None\<rparr>,
     \<lparr>name = ''Tailwind CSS'', weight = 6, category = ''styling'', skillSection = None\<rparr>,
     \<lparr>name = ''npm/yarn'', weight = 8, category = ''tooling'', skillSection = None\<rparr>,
     \<lparr>name = ''Webpack'', weight = 7, category = ''tooling'', skillSection = None\<rparr>,
     \<lparr>name = ''Vite'', weight = 7, category = ''tooling'', skillSection = None\<rparr>,
     \<lparr>name = ''Babel'', weight = 6, category = ''tooling'', skillSection = None\<rparr>,
     \<lparr>name = ''Git'', weight = 9, category = ''fundamentals'', skillSection = None\<rparr>,
     \<lparr>name = ''GitHub'', weight = 8, category = ''fundamentals'', skillSection = None\<rparr>,
     \<lparr>name = ''Fetch API'', weight = 8, category = ''apis'', skillSection = None\<rparr>,
     \<lparr>name = ''Local Storage'', weight = 7, category = ''apis'', skillSection = None\<rparr>,
     \<lparr>name = ''Web Storage'', weight = 6, category = ''apis'', skillSection = None\<rparr>,
     \<lparr>name = ''Performance Optimization'', weight = 7, category = ''performance'', skillSection = None\<rparr>,
     \<lparr>name = ''Lazy Loading'', weight = 6, category = ''performance'', skillSection = None\<rparr>,
     \<lparr>name = ''Code Splitting'', weight = 6, category = ''performance'', skillSection = None\<rparr>,
     \<lparr>name = ''Jest'', weight = 7, category = ''testing'', skillSection = None\<rparr>,
     \<lparr>name = ''React Testing Library'', weight = 6, category = ''testing'', skillSection = None\<rparr>,
     \<lparr>name = ''Unit Testing'', weight = 7, category = ''testing'', skillSection = None\<rparr>,
     \<lparr>name = ''Web Accessibility'', weight = 7, category = ''accessibility'', skillSection = None\<rparr>,
     \<lparr>name = ''ARIA'', weight = 6, category = ''accessibility'', skillSection = None\<rparr>,
     \<lparr>name = ''TypeScript'', weight = 7, category = ''languages'', skillSection = None\<rparr>,
     \<lparr>name = ''SEO Basics'', weight = 6, category = ''optimization'', skillSection = None\<rparr>,
     \<lparr>name = ''Browser Compatibility'', weight = 6, category = ''fundamentals'', skillSection = None\<rparr>,
     \<lparr>name = ''Progressive Web Apps'', weight = 5, category = ''advanced'', skillSection = None\<rparr>,
     \<lparr>name = ''Web Components'', weight = 5, category = ''advanced'', skillSection = None\<rparr>]"

definition coreSkills_backend :: "coreSkill list" where
  "coreSkills_backend =
    [\<lparr>name = ''JavaScript'', weight = 10, category = ''fundamentals'', skillSection = None\<rparr>,
     \<lparr>name = ''Node.js'', weight = 10, category = ''fundamentals'', skillSection = None\<rparr>,
     \<lparr>name = ''HTTP/HTTPS'', weight = 9, category = ''fundamentals'', skillSection = None\<rparr>,
     \<lparr>name = ''REST APIs'', weight = 9, category = ''fundamentals'', skillSection = None\<rparr>,
     \<lparr>name = ''JSON'', weight = 9, category = ''fundamentals'', skillSection = None\<rparr>,
     \<lparr>name = ''Express.js'', weight = 9, category = ''frameworks'', skillSection = None\<rparr>,
     \<lparr>name = ''Middleware'', weight = 8, category = ''frameworks'', skillSection = None\<rparr>,
     \<lparr>name = ''Routing'', weight = 8, category = ''frameworks'', skillSection = None\<rparr>,
     \<lparr>name = ''SQL'', weight = 9, category = ''databases'', skillSection = None\<rparr>,
     \<lparr>name = ''PostgreSQL'', weight = 8, category = ''databases'', skillSection = None\<rparr>,
     \<lparr>name = ''MySQL'', weight = 8, category = ''databases'', skillSection = None\<rparr>,
     \<lparr>name = ''MongoDB'', weight = 8, category = ''databases'', skillSection = None\<rparr>,
     \<lparr>name = ''Database Design'', weight = 8, category = ''databases'', skillSection = None\<rparr>,
     \<lparr>name = ''ORMs'', weight = 7, category = ''databases'', skillSection = None\<rparr>,
     \<lparr>name = ''Authentication'', weight = 9, category = ''security'', skillSection = None\<rparr>,
     \<lparr>name = ''Authorization'', weight = 9, category = ''security'', skillSection = None\<rparr>,
     \<lparr>name = ''JWT'', weight = 8, category = ''security'', skillSection = None\<rparr>,
     \<lparr>name = ''OAuth'', weight = 7, category = ''security'', skillSection = None\<rparr>,
     \<lparr>name = ''Encryption'', weight = 8, category = ''security'', skillSection = None\<rparr>,
     \<lparr>name = ''HTTPS/TLS'', weight = 8, category = ''security'', skillSection = None\<rparr>,
     \<lparr>name = ''RESTful Design'', weight = 8, category = ''apis'', skillSection = None\<rparr>,
     \<lparr>name = ''API Versioning'', weight = 7, category = ''apis'', skillSection = None\<rparr>,
     \<lparr>name = ''GraphQL'', weight = 6, category = ''apis'', skillSection = None\<rparr>,
     \<lparr>name = ''Error Handling'', weight = 8, category = ''apis'', skillSection = None\<rparr>,
     \<lparr>name = ''Git'', weight = 9, category = ''fundamentals'', skillSection = None\<rparr>,
     \<lparr>name = ''GitHub'', weight = 8, category = ''fundamentals'', skillSection = None\<rparr>,
     \<lparr>name = ''Async/Await'', weight = 8, category = ''programming'', skillSection = None\<rparr>,
     \<lparr>name = ''Promises'', weight = 8, category = ''programming'', skillSection = None\<rparr>,
     \<lparr>name = ''Event Loop'', weight = 7, category = ''programming'', skillSection = None\<rparr>,
     \<lparr>name = ''Unit Testing'', weight = 8, category = ''testing'', skillSection = None\<rparr>,
     \<lparr>name = ''Integration Testing'', weight = 7, category = ''testing'', skillSection = None\<rparr>,
     \<lparr>name = ''Jest'', weight = 7, category = ''testing'', skillSection = None\<rparr>,
     \<lparr>name = ''API Testing'', weight = 7, category = ''testing'', skillSection = None\<rparr>,
     \<lparr>name = ''Environment Variables'', weight = 8, category = ''devops'', skillSection = None\<rparr>,
     \<lparr>name = ''Logging'', weight = 7, category = ''devops'', skillSection = None\<rparr>,
     \<lparr>name = ''Deployment'', weight = 7, category = ''devops'', skillSection = None\<rparr>,
     \<lparr>name = ''CI/CD Basics'', weight = 6, category = ''devops'', skillSection = None\<rparr>,
     \<lparr>name = ''Caching'', weight = 7, category = ''performance'', skillSection = None\<rparr>,
     \<lparr>name = ''Rate Limiting'', weight = 7, category = ''performance'', skillSection = None\<rparr>,
     \<lparr>name = ''Load Balancing'', weight = 6, category = ''performance'', skillSection = None\<rparr>,
     \<lparr>name = ''Docker'', weight = 7, category = ''devops'', skillSection = None\<rparr>,
     \<lparr>name = ''Redis'', weight = 6, category = ''databases'', skillSection = None\<rparr>,
     \<lparr>name = ''Message Queues'', weight = 6, category = ''architecture'', skillSection = None\<rparr>,
     \<lparr>name = ''Microservices'', weight = 5, category = ''architecture'', skillSection = None\<rparr>,
     \<lparr>name = ''WebSockets'', weight = 6, category = ''realtime'', skillSection = None\<rparr>,
     \<lparr>name = ''TypeScript'', weight = 7, category = ''languages'', skillSection = None\<rparr>]"

definition coreSkills_fullstack :: "coreSkill list" where
  "coreSkills_fullstack =
    [\<lparr>name = ''HTML'', weight = 10, category = ''frontend-fundamentals'', skillSection = Some ''frontend''\<rparr>,
     \<lparr>name = ''CSS'', weight = 10, category = ''frontend-fundamentals'', skillSection = Some ''frontend''\<rparr>,
     \<lparr>name = ''JavaScript'', weight = 10, category = ''fundamentals'', skillSection = Some ''both''\<rparr>,
     \<lparr>name = ''Git'', weight = 10, category = ''fundamentals'', skillSection = Some ''both''\<rparr>,
     \<lparr>name = ''React'', weight = 9, category = ''frontend-frameworks'', skillSection = Some ''frontend''\<rparr>,
     \<lparr>name = ''Responsive Design'', weight = 9, category = ''frontend-fundamentals'', skillSection = Some ''frontend''\<rparr>,
     \<lparr>name = ''CSS Flexbox'', weight = 8, category = ''frontend-styling'', skillSection = Some ''frontend''\<rparr>,
     \<lparr>name = ''CSS Grid'', weight = 8, category = ''frontend-styling'', skillSection = Some ''frontend''\<rparr>,
     \<lparr>name = ''ES6+'', weight = 8, category = ''javascript'', skillSection = Some ''both''\<rparr>,
     \<lparr>name = ''Async/Await'', weight = 8, category = ''javascript'', skillSection = Some ''both''\<rparr>,
     \<lparr>name = ''Fetch API'', weight = 8, category = ''frontend-apis'', skillSection = Some ''frontend''\<rparr>,
     \<lparr>name = ''Node.js'', weight = 10, category = ''backend-fundamentals'', skillSection = Some ''backend''\<rparr>,
     \<lparr>name = ''Express.js'', weight = 9, category = ''backend-frameworks'', skillSection = Some ''backend''\<rparr>,
     \<lparr>name = ''REST APIs'', weight = 9, category = ''backend-apis'', skillSection = Some ''backend''\<rparr>,
     \<lparr>name = ''HTTP/HTTPS'', weight = 9, category = ''backend-fundamentals'', skillSection = Some ''backend''\<rparr>,
     \<lparr>name = ''SQL'', weight = 9, category = ''backend-databases'', skillSection = Some ''backend''\<rparr>,
     \<lparr>name = ''Authentication'', weight = 9, category = ''backend-security'', skillSection = Some ''backend''\<rparr>,
     \<lparr>name = ''Database Design'', weight = 8, category = ''backend-databases'', skillSection = Some ''backend''\<rparr>,
     \<lparr>name = ''RESTful Design'', weight = 9, category = ''integration'', skillSection = Some ''both''\<rparr>,
     \<lparr>name = ''State Management'', weight = 8, category = ''frontend-frameworks'', skillSection = Some ''frontend''\<rparr>,
     \<lparr>name = ''Error Handling'', weight = 8, category = ''integration'', skillSection = Some ''both''\<rparr>,
     \<lparr>name = ''Environment Variables'', weight = 8, category = ''backend-devops'', skillSection = Some ''backend''\<rparr>,
     \<lparr>name = ''PostgreSQL'', weight = 8, category = ''backend-databases'', skillSection = Some ''backend''\<rparr>,
     \<lparr>name = ''MongoDB'', weight = 7, category = ''backend-databases'', skillSection = Some ''backend''\<rparr>,
     \<lparr>name = ''Authorization'', weight = 8, category = ''backend-security'', skillSection = Some ''backend''\<rparr>,
     \<lparr>name = ''JWT'', weight = 8, category = ''backend-security'', skillSection = Some ''backend''\<rparr>,
     \<lparr>name = ''Encryption'', weight = 7, category = ''backend-security'', skillSection = Some ''backend''\<rparr>,
     \<lparr>name = ''npm/yarn'', weight = 8, category = ''tooling'', skillSection = Some ''both''\<rparr>,
     \<lparr>name = ''Webpack'', weight = 7, category = ''frontend-tooling'', skillSection = Some ''frontend''\<rparr>,
     \<lparr>name = ''Deployment'', weight = 8, category = ''backend-devops'', skillSection = Some ''backend''\<rparr>,
     \<lparr>name = ''Unit Testing'', weight = 8, category = ''testing'', skillSection = Some ''both''\<rparr>,
     \<lparr>name = ''Integration Testing'', weight = 7, category = ''backend-testing'', skillSection = Some ''backend''\<rparr>,
     \<lparr>name = ''Jest'', weight = 7, category = ''testing'', skillSection = Some ''both''\<rparr>,
     \<lparr>name = ''Caching'', weight = 7, category = ''backend-performance'', skillSection = Some ''backend''\<rparr>,
     \<lparr>name = ''Performance Optimization'', weight = 7, category = ''frontend-performance'', skillSection = Some ''frontend''\<rparr>,
     \<lparr>name = ''Rate Limiting'', weight = 7, category = ''backend-performance'', skillSection = Some ''backend''\<rparr>,
     \<lparr>name = ''TypeScript'', weight = 7, category = ''languages'', skillSection = Some ''both''\<rparr>,
     \<lparr>name = ''Docker'', weight = 7, category = ''backend-devops'', skillSection = Some ''backend''\<rparr>,
     \<lparr>name = ''Web Accessibility'', weight = 7, category = ''frontend-accessibility'', skillSection = Some ''frontend''\<rparr>,
     \<lparr>name = ''Logging'', weight = 7, category = ''backend-devops'', skillSection = Some ''backend''\<rparr>,
     \<lparr>name = ''Browser DevTools'', weight = 7, category = ''frontend-fundamentals'', skillSection = Some ''frontend''\<rparr>]"

definition ROADMAPS :: "(string \<times> roadmap) list" where
  "ROADMAPS =
    [(''frontend'', \<lparr>roadmapName = ''Frontend Development'', description = ''Client-side web development skills'', coreSkills = coreSkills_frontend\<rparr>),
     (''backend'', \<lparr>roadmapName = ''Backend Development'', description = ''Server-side development skills'', coreSkills = coreSkills_backend\<rparr>),
     (''fullstack'', \<lparr>roadmapName = ''Full Stack Development'', description = ''Complete web development stack'', coreSkills = coreSkills_fullstack\<rparr>)]"
text \<open>\<open>throw new Error(`Invalid track: ${track}`)\<close>\<close>

datatype error = InvalidTrack string

definition getCoreSkillsIn :: "(string \<times> roadmap) list \<Rightarrow> string \<Rightarrow> error + coreSkill list" where
  "getCoreSkillsIn roadmaps track =
     (case map_of roadmaps track of
        None \<Rightarrow> Inl (InvalidTrack track)
      | Some r \<Rightarrow> Inr (coreSkills r))"

definition getCoreSkills :: "string \<Rightarrow> error + coreSkill list" where
  "getCoreSkills track = getCoreSkillsIn ROADMAPS track"

definition getSkillWeightIn :: "(string \<times> roadmap) list \<Rightarrow> string \<Rightarrow> string \<Rightarrow> error + nat" where
  "getSkillWeightIn roadmaps track skillName =
     (case getCoreSkillsIn roadmaps track of
        Inl e \<Rightarrow> Inl e
      | Inr skills \<Rightarrow>
          Inr (case find (\<lambda>s. toLowerCase (name s) = toLowerCase skillName) skills of
                 None \<Rightarrow> 0
               | Some s \<Rightarrow> weight s))"

definition getSkillWeight :: "string \<Rightarrow> string \<Rightarrow> error + nat" where
  "getSkillWeight track skillName = getSkillWeightIn ROADMAPS track skillName"

section \<open>Gap analysis (validationService.js)\<close>

text \<open>A gap \<open>{skill, weight}\<close>; the fields are named \<open>gap_skill\<close> and \<open>gap_weight\<close> here.\<close>

record gap =
  gap_skill :: string
  gap_weight :: nat

text \<open>
  The \<open>.map(skill => ({skill, weight: getSkillWeight(track, skill)}))\<close> of \<open>findGaps\<close>: an
  exception of \<open>getSkillWeight\<close> ends it.
\<close>

fun withWeights :: "(string \<times> roadmap) list \<Rightarrow> string \<Rightarrow> string list \<Rightarrow> error + gap list" where
  "withWeights roadmaps track [] = Inr []"
| "withWeights roadmaps track (s # rest) =
     (case getSkillWeightIn roadmaps track s of
        Inl e \<Rightarrow> Inl e
      | Inr w \<Rightarrow>
          (case withWeights roadmaps track rest of
             Inl e \<Rightarrow> Inl e
           | Inr gaps \<Rightarrow> Inr (\<lparr>gap_skill = s, gap_weight = w\<rparr> # gaps)))"

definition findGapsIn ::
  "(string \<times> roadmap) list \<Rightarrow> string \<Rightarrow> string list \<Rightarrow> string list \<Rightarrow> error + gap list" where
  "findGapsIn roadmaps track userSkillNames coreSkillNames =
     (let userSkillSet = set (map toLowerCase userSkillNames)
      in withWeights roadmaps track
           (filter (\<lambda>coreSkill. toLowerCase coreSkill \<notin> userSkillSet) coreSkillNames))"

definition findGaps :: "string \<Rightarrow> string list \<Rightarrow> string list \<Rightarrow> error + gap list" where
  "findGaps track userSkillNames coreSkillNames =
     findGapsIn ROADMAPS track userSkillNames coreSkillNames"








section \<open>Suggested next skills (prerequisites.js)\<close>








section \<open>Theorems\<close>

subsection \<open>Demand categories\<close>

text \<open>
  Claim C7. The category is \<open>HIGH\<close> exactly when the combined score is at least 1000,
  \<open>MEDIUM\<close> exactly when it is at least 300 and below 1000, and \<open>LOW\<close> exactly when it
  is below 300; every score gets one of the three categories, and the category depends
  on the score (and the two fixed thresholds) only.
\<close>

theorem categorizeDemand_partition:
  "(categorizeDemand s = HIGH \<longleftrightarrow> s \<ge> 1000) \<and>
   (categorizeDemand s = MEDIUM \<longleftrightarrow> 300 \<le> s \<and> s < 1000) \<and>
   (categorizeDemand s = LOW \<longleftrightarrow> s < 300) \<and>
   categorizeDemand s \<in> {LOW, MEDIUM, HIGH}"
  by (simp add: categorizeDemand_def DEMAND_THRESHOLDS_HIGH_def DEMAND_THRESHOLDS_MEDIUM_def)

theorem categorizeDemand_partition_witness:
  "categorizeDemand 1000 = HIGH \<and> categorizeDemand 999.5 = MEDIUM \<and>
   categorizeDemand 300 = MEDIUM \<and> categorizeDemand 299.5 = LOW \<and> categorizeDemand 0 = LOW"
  using categorizeDemand_partition [of 1000] categorizeDemand_partition [of "999.5"]
    categorizeDemand_partition [of 300] categorizeDemand_partition [of "299.5"]
    categorizeDemand_partition [of 0]
  by simp

subsection \<open>Learning order\<close>



lemma newSet_fold_id:
  "distinct (acc @ xs) \<Longrightarrow> fold (\<lambda>s acc. if s \<in> set acc then acc else acc @ [s]) xs acc = acc @ xs"
  by (induction xs arbitrary: acc) auto



lemma newSet_distinct_id: "distinct xs \<Longrightarrow> newSet xs = xs"
  using newSet_fold_id [of "[]" xs] by (simp add: newSet_def)

lemma forOfArr_added_mono:
  "addedThisRound st \<Longrightarrow> addedThisRound (forOfArr pre names rest st)"
  by (induction rest arbitrary: st) (auto simp: Let_def)

lemma forOfArr_unchanged:
  "\<not> addedThisRound (forOfArr pre names rest st) \<Longrightarrow> forOfArr pre names rest st = st"
proof (induction rest arbitrary: st)
  case Nil
  then show ?case by simp
next
  case (Cons skill rest)
  show ?case
  proof (cases "list_all (\<lambda>prereq. prereq \<in> processed st \<or> prereq \<notin> set names) (pre skill)")
    case True
    then have "addedThisRound (forOfArr pre names (skill # rest) st)"
      by (simp add: forOfArr_added_mono)
    with Cons.prems show ?thesis by simp
  next
    case False
    with Cons show ?thesis by simp
  qed
qed






lemma baseInv_reset [simp]: "baseInv names (st\<lparr>addedThisRound := b\<rparr>) = baseInv names st"
  by (simp add: baseInv_def)

lemma orderInv_reset [simp]: "orderInv pre names (st\<lparr>addedThisRound := b\<rparr>) = orderInv pre names st"
  by (simp add: orderInv_def)




lemma whileLoopArr_flush:
  assumes "remaining st \<noteq> []" "i < m"
    and "\<not> addedThisRound (forOfArr pre names (remaining st) (st\<lparr>addedThisRound := False\<rparr>))"
  shows "whileLoopArr pre names m i st =
           (i + 1, st\<lparr>addedThisRound := False, ordered := ordered st @ sort (remaining st)\<rparr>)"
proof -
  have "forOfArr pre names (remaining st) (st\<lparr>addedThisRound := False\<rparr>) = st\<lparr>addedThisRound := False\<rparr>"
    using assms(3) by (rule forOfArr_unchanged)
  then show ?thesis using assms(1,2)
    by (subst whileLoopArr.simps) (simp add: Let_def)
qed














































subsection \<open>Evidence cache\<close>

lemma update_absent: "k \<notin> fst ` set al \<Longrightarrow> AList.update k v al = al @ [(k, v)]"
  by (induction al) auto



lemma maxSize_set_cache [simp]: "maxSize (set_cache c key v ttlMs now) = maxSize c"
  by (simp add: set_cache_def Let_def)

lemma maxSize_get [simp]: "maxSize (snd (get c key now)) = maxSize c"
  by (simp add: get_def split: option.splits)

lemma distinct_set_cache:
  "distinct (map fst (cache c)) \<Longrightarrow> distinct (map fst (cache (set_cache c key v ttlMs now)))"
  by (auto simp: set_cache_def Let_def AList.distinct_update AList.distinct_delete split: list.splits
      simp del: AList.delete_simps)

lemma distinct_get:
  "distinct (map fst (cache c)) \<Longrightarrow> distinct (map fst (cache (snd (get c key now))))"
  by (auto simp: get_def AList.distinct_update AList.distinct_delete split: option.splits)


lemma length_update_present: "map_of al k \<noteq> None \<Longrightarrow> length (AList.update k v al) = length al"
  by (induction al) auto



lemma run_Nil [simp]: "run c [] = c"
  by (simp add: run_def)

lemma run_Cons [simp]: "run c (x # ops) = run (step c x) ops"
  by (simp add: run_def)


lemma maxSize_step [simp]: "maxSize (step c x) = maxSize c"
  by (cases "(c, x)" rule: step.cases) simp_all

lemma maxSize_run [simp]: "maxSize (run c ops) = maxSize c"
  by (induction ops arbitrary: c) simp_all



lemma distinct_step: "distinct (keys c) \<Longrightarrow> distinct (keys (step c x))"
  by (cases "(c, x)" rule: step.cases) (simp_all add: keys_def distinct_set_cache distinct_get)

lemma distinct_run: "distinct (keys c) \<Longrightarrow> distinct (keys (run c ops))"
  by (induction ops arbitrary: c) (simp_all add: distinct_step)

lemma keys_update: "map fst (AList.update k v al) = (if map_of al k = None then map fst al @ [k] else map fst al)"
  by (simp add: AList.update_keys map_of_eq_None_iff)

lemma keys_set_present:
  "map_of (cache c) key \<noteq> None \<Longrightarrow> keys (set_cache c key v ttlMs now) = keys c"
  by (auto simp: keys_def set_cache_def Let_def keys_update)



lemma keys_get_miss: "map_of (cache c) key = None \<Longrightarrow> get c key now = (None, c)"
  by (simp add: get_def)













lemma map_of_set_cache:
  "map_of (cache (set_cache c key v ttlMs now)) key =
     Some \<lparr>entryValue = v,
           expiry = now + (case ttlMs of None \<Rightarrow> defaultTTL c
                           | Some t \<Rightarrow> if t = 0 then defaultTTL c else t),
           createdAt = now\<rparr>"
  by (simp add: set_cache_def Let_def AList.update_conv')





lemma get_hit:
  assumes "map_of (cache c) key = Some e" "now \<le> expiry e"
  shows "fst (get c key now) = entryValue e"
    and "cache (snd (get c key now)) = AList.delete key (cache c) @ [(key, e)]"
proof -
  have k: "key \<notin> fst ` set (AList.delete key (cache c))" by (rule AList.delete_notin_dom)
  show "fst (get c key now) = entryValue e" using assms by (simp add: get_def)
  show "cache (snd (get c key now)) = AList.delete key (cache c) @ [(key, e)]"
    using assms by (simp add: get_def update_absent [OF k])
qed

lemma get_after_set:
  "fst (get (set_cache c key v (Some 50) t0) key t1) = (if t1 \<le> t0 + 50 then v else None)"
  by (simp add: get_def map_of_set_cache)

text \<open>
  Claim C4. \<open>get\<close> returns the stored value when the key is stored and the time is not
  past the entry's expiry, and then moves the entry to the end of the store (most recently
  used). It returns \<open>null\<close> and leaves the cache as it is when the key is not stored. It
  returns \<open>null\<close> and deletes the entry when the time is past the expiry. An entry set
  with a lifetime of 50 ms at time \<open>t0\<close> reads as its value up to \<open>t0 + 50\<close> and as
  \<open>null\<close> after it, 100 ms later in particular.
\<close>

theorem get_hit_miss_expiry:
  "(map_of (cache c) key = Some e \<and> now \<le> expiry e \<longrightarrow>
      fst (get c key now) = entryValue e \<and>
      cache (snd (get c key now)) = AList.delete key (cache c) @ [(key, e)]) \<and>
   (map_of (cache c) key = None \<longrightarrow> get c key now = (None, c)) \<and>
   (map_of (cache c) key = Some e \<and> now > expiry e \<longrightarrow>
      fst (get c key now) = None \<and>
      cache (snd (get c key now)) = AList.delete key (cache c) \<and>
      map_of (cache (snd (get c key now))) key = None) \<and>
   (t1 \<le> t0 + 50 \<longrightarrow> fst (get (set_cache c key v (Some 50) t0) key t1) = v) \<and>
   (t1 > t0 + 50 \<longrightarrow> fst (get (set_cache c key v (Some 50) t0) key t1) = None) \<and>
   fst (get (set_cache c key v (Some 50) t0) key (t0 + 100)) = None"
proof (intro conjI impI)
  assume "map_of (cache c) key = Some e \<and> now \<le> expiry e"
  then show "fst (get c key now) = entryValue e"
    and "cache (snd (get c key now)) = AList.delete key (cache c) @ [(key, e)]"
    by (simp_all add: get_hit)
next
  assume "map_of (cache c) key = None"
  then show "get c key now = (None, c)" by (simp add: get_def)
next
  assume a: "map_of (cache c) key = Some e \<and> now > expiry e"
  then show "fst (get c key now) = None"
    and "cache (snd (get c key now)) = AList.delete key (cache c)"
    by (simp_all add: get_def)
  from a show "map_of (cache (snd (get c key now))) key = None"
    by (simp add: get_def AList.delete_conv')
next
  assume "t1 \<le> t0 + 50"
  then show "fst (get (set_cache c key v (Some 50) t0) key t1) = v"
    by (simp add: get_after_set)
next
  assume "t1 > t0 + 50"
  then show "fst (get (set_cache c key v (Some 50) t0) key t1) = None"
    by (simp add: get_after_set)
next
  show "fst (get (set_cache c key v (Some 50) t0) key (t0 + 100)) = None"
    by (simp add: get_after_set)
qed

lemma hit_example:
  "map_of (cache (set_cache (newCache 100 43200000) ''k'' (Some ''x'') (Some 50) 1000)) ''k''
     = Some \<lparr>entryValue = Some ''x'', expiry = 1050, createdAt = 1000\<rparr>"
  by (simp add: map_of_set_cache)

theorem get_hit_miss_expiry_witness:
  "fst (get (set_cache (newCache 100 43200000) ''k'' (Some ''x'') (Some 50) 1000) ''k'' 1049) = Some ''x'' \<and>
   fst (get (set_cache (newCache 100 43200000) ''k'' (Some ''x'') (Some 50) 1000) ''k'' 1100) = None \<and>
   get (newCache 100 43200000 :: string CacheService) ''k'' 0 = (None, newCache 100 43200000) \<and>
   map_of (cache (snd (get (set_cache (newCache 100 43200000) ''k'' (Some ''x'') (Some 50) 1000) ''k'' 1100))) ''k'' = None"
proof -
  let ?c = "set_cache (newCache 100 43200000) ''k'' (Some ''x'') (Some 50) 1000"
  let ?e = "\<lparr>entryValue = Some ''x'', expiry = 1050, createdAt = 1000\<rparr>"
  have e: "map_of (cache ?c) ''k'' = Some ?e" by (rule hit_example)
  have "map_of (cache ?c) ''k'' = Some ?e \<and> 1049 \<le> expiry ?e" using e by simp
  with get_hit_miss_expiry [where c = ?c and key = "''k''" and now = 1049 and e = ?e]
  have 1: "fst (get ?c ''k'' 1049) = entryValue ?e" by blast
  have "map_of (cache ?c) ''k'' = Some ?e \<and> 1100 > expiry ?e" using e by simp
  with get_hit_miss_expiry [where c = ?c and key = "''k''" and now = 1100 and e = ?e]
  have 2: "fst (get ?c ''k'' 1100) = None" "map_of (cache (snd (get ?c ''k'' 1100))) ''k'' = None"
    by blast+
  have "map_of (cache (newCache 100 43200000 :: string CacheService)) ''k'' = None"
    by (simp add: newCache_def)
  with get_hit_miss_expiry [where c = "newCache 100 43200000 :: string CacheService" and key = "''k''" and now = 0]
  have 3: "get (newCache 100 43200000 :: string CacheService) ''k'' 0 = (None, newCache 100 43200000)"
    by blast
  from 1 2 3 show ?thesis by simp
qed

lemma sorted_keys_unique:
  assumes "distinct (map fst params)" "distinct (map fst params')" "set params = set params'"
  shows "sort (map fst params) = sort (map fst params')"
proof -
  have "set (map fst params) = set (map fst params')" using assms(3) by simp
  then have "set (sort (map fst params)) = set (sort (map fst params'))" by simp
  moreover have "distinct (sort (map fst params))" "distinct (sort (map fst params'))"
    using assms(1,2) by simp_all
  ultimately show ?thesis
    by (intro sorted_distinct_set_unique) simp_all
qed

lemma generateKey_example:
  "generateKey prefix [(''b'', ''2''), (''a'', ''1'')] = prefix @ '':a:1|b:2''"
  by (simp add: generateKey_def)

lemma generateKey_example': 
  "generateKey prefix [(''a'', ''1''), (''b'', ''2'')] = prefix @ '':a:1|b:2''"
  by (simp add: generateKey_def)

text \<open>
  Claim C5. \<open>generateKey\<close> is a function of the prefix and the fields of the parameter
  object: two objects with the same field/value pairs, in any insertion order, give the
  same key. The key is the prefix, a colon, and the \<open>field:value\<close> pairs in the sorted
  order of the field names, joined by \<open>|\<close>; \<open>{a:1,b:2}\<close> and \<open>{b:2,a:1}\<close> both give
  \<open>prefix:a:1|b:2\<close>.
\<close>

theorem generateKey_order_independent:
  "(distinct (map fst params) \<and> distinct (map fst params') \<and> set params = set params' \<longrightarrow>
      generateKey prefix params = generateKey prefix params') \<and>
   generateKey prefix [(''a'', ''1''), (''b'', ''2'')] = generateKey prefix [(''b'', ''2''), (''a'', ''1'')] \<and>
   generateKey prefix [(''b'', ''2''), (''a'', ''1'')] = prefix @ '':a:1|b:2''"
proof (intro conjI impI)
  assume a: "distinct (map fst params) \<and> distinct (map fst params') \<and> set params = set params'"
  then have "map_of params = map_of params'" by (simp add: map_of_inject_set)
  moreover have "sort (map fst params) = sort (map fst params')"
    using a by (intro sorted_keys_unique) simp_all
  ultimately show "generateKey prefix params = generateKey prefix params'"
    by (simp add: generateKey_def)
next
  show "generateKey prefix [(''a'', ''1''), (''b'', ''2'')] = generateKey prefix [(''b'', ''2''), (''a'', ''1'')]"
    by (simp add: generateKey_example generateKey_example')
next
  show "generateKey prefix [(''b'', ''2''), (''a'', ''1'')] = prefix @ '':a:1|b:2''"
    by (rule generateKey_example)
qed

theorem generateKey_order_independent_witness:
  "distinct (map fst [(''skill'', ''React''), (''track'', ''frontend''), (''months'', ''6'')]) \<and>
   generateKey ''github:demand'' [(''skill'', ''React''), (''track'', ''frontend''), (''months'', ''6'')]
     = generateKey ''github:demand'' [(''months'', ''6''), (''track'', ''frontend''), (''skill'', ''React'')] \<and>
   generateKey ''github:demand'' [(''months'', ''6''), (''track'', ''frontend''), (''skill'', ''React'')]
     = ''github:demand:months:6|skill:React|track:frontend''"
proof -
  have pre: "distinct (map fst [(''skill'', ''React''), (''track'', ''frontend''), (''months'', ''6'')]) \<and>
     distinct (map fst [(''months'', ''6''), (''track'', ''frontend''), (''skill'', ''React'')]) \<and>
     set [(''skill'', ''React''), (''track'', ''frontend''), (''months'', ''6'')]
       = set [(''months'', ''6''), (''track'', ''frontend''), (''skill'', ''React'')]"
    by auto
  with generateKey_order_independent
    [where params = "[(''skill'', ''React''), (''track'', ''frontend''), (''months'', ''6'')]"
       and params' = "[(''months'', ''6''), (''track'', ''frontend''), (''skill'', ''React'')]"
       and prefix = "''github:demand''"]
  have "generateKey ''github:demand'' [(''skill'', ''React''), (''track'', ''frontend''), (''months'', ''6'')]
     = generateKey ''github:demand'' [(''months'', ''6''), (''track'', ''frontend''), (''skill'', ''React'')]"
    by blast
  moreover have "generateKey ''github:demand'' [(''months'', ''6''), (''track'', ''frontend''), (''skill'', ''React'')]
     = ''github:demand:months:6|skill:React|track:frontend''"
    by code_simp
  ultimately show ?thesis using pre by simp
qed

lemma set_present_cache:
  assumes "map_of (cache c) key = Some old"
  shows "length (cache (set_cache c key v ttlMs now)) = length (cache c)"
  using assms by (simp add: set_cache_def Let_def length_update_present)

lemma set_present_map:
  assumes "map_of (cache c) key = Some old"
  shows "map_of (cache (set_cache c key v ttlMs now)) =
     (map_of (cache c))(key \<mapsto> \<lparr>entryValue = v,
           expiry = now + (case ttlMs of None \<Rightarrow> defaultTTL c
                           | Some t \<Rightarrow> if t = 0 then defaultTTL c else t),
           createdAt = now\<rparr>)"
  using assms by (simp add: set_cache_def Let_def AList.update_conv')

lemma refresh_example:
  "keys (run (newCache 2 1000)
      [(SetOp ''a'' (Some (1::nat)) None, 0), (SetOp ''b'' (Some 2) None, 1),
       (SetOp ''a'' (Some 3) None, 2), (SetOp ''c'' (Some 4) None, 3)]) = [''b'', ''c''] \<and>
   keys (run (newCache 2 1000)
      [(SetOp ''a'' (Some (1::nat)) None, 0), (SetOp ''b'' (Some 2) None, 1),
       (GetOp ''a'', 2), (SetOp ''c'' (Some 4) None, 3)]) = [''a'', ''c'']"
  by code_simp

text \<open>
  Claim C10. \<open>set\<close> on a key that is stored replaces the entry (value, expiry) where it
  stands: nothing is evicted and the order of the keys is unchanged. So with capacity 2,
  after setting \<open>a\<close>, \<open>b\<close> and then \<open>a\<close> again, setting \<open>c\<close> evicts \<open>a\<close>, the entry just
  refreshed; after a read of \<open>a\<close> instead of the second \<open>set\<close>, it evicts \<open>b\<close>.
\<close>

theorem set_existing_keeps_position:
  "(map_of (cache c) key = Some old \<longrightarrow>
      keys (set_cache c key v ttlMs now) = keys c \<and>
      length (cache (set_cache c key v ttlMs now)) = length (cache c) \<and>
      map_of (cache (set_cache c key v ttlMs now)) =
        (map_of (cache c))(key \<mapsto> \<lparr>entryValue = v,
           expiry = now + (case ttlMs of None \<Rightarrow> defaultTTL c
                           | Some t \<Rightarrow> if t = 0 then defaultTTL c else t),
           createdAt = now\<rparr>)) \<and>
   keys (run (newCache 2 1000)
      [(SetOp ''a'' (Some (1::nat)) None, 0), (SetOp ''b'' (Some 2) None, 1),
       (SetOp ''a'' (Some 3) None, 2), (SetOp ''c'' (Some 4) None, 3)]) = [''b'', ''c''] \<and>
   keys (run (newCache 2 1000)
      [(SetOp ''a'' (Some (1::nat)) None, 0), (SetOp ''b'' (Some 2) None, 1),
       (GetOp ''a'', 2), (SetOp ''c'' (Some 4) None, 3)]) = [''a'', ''c'']"
proof (intro conjI impI)
  assume a: "map_of (cache c) key = Some old"
  then show "keys (set_cache c key v ttlMs now) = keys c"
    by (intro keys_set_present) simp
  from a show "length (cache (set_cache c key v ttlMs now)) = length (cache c)"
    by (rule set_present_cache)
  from a show "map_of (cache (set_cache c key v ttlMs now)) =
        (map_of (cache c))(key \<mapsto> \<lparr>entryValue = v,
           expiry = now + (case ttlMs of None \<Rightarrow> defaultTTL c
                           | Some t \<Rightarrow> if t = 0 then defaultTTL c else t),
           createdAt = now\<rparr>)"
    by (rule set_present_map)
next
  show "keys (run (newCache 2 1000)
      [(SetOp ''a'' (Some (1::nat)) None, 0), (SetOp ''b'' (Some 2) None, 1),
       (SetOp ''a'' (Some 3) None, 2), (SetOp ''c'' (Some 4) None, 3)]) = [''b'', ''c'']"
    using refresh_example by blast
next
  show "keys (run (newCache 2 1000)
      [(SetOp ''a'' (Some (1::nat)) None, 0), (SetOp ''b'' (Some 2) None, 1),
       (GetOp ''a'', 2), (SetOp ''c'' (Some 4) None, 3)]) = [''a'', ''c'']"
    using refresh_example by blast
qed

lemma refresh_state:
  "cache (run (newCache 2 1000)
      [(SetOp ''a'' (Some (1::nat)) None, 0), (SetOp ''b'' (Some 2) None, 1)])
    = [(''a'', \<lparr>entryValue = Some 1, expiry = 1000, createdAt = 0\<rparr>),
       (''b'', \<lparr>entryValue = Some 2, expiry = 1001, createdAt = 1\<rparr>)]"
  by code_simp

theorem set_existing_keeps_position_witness:
  "map_of (cache (run (newCache 2 1000)
      [(SetOp ''a'' (Some (1::nat)) None, 0), (SetOp ''b'' (Some 2) None, 1)])) ''a''
     = Some \<lparr>entryValue = Some 1, expiry = 1000, createdAt = 0\<rparr> \<and>
   keys (set_cache (run (newCache 2 1000)
      [(SetOp ''a'' (Some (1::nat)) None, 0), (SetOp ''b'' (Some 2) None, 1)]) ''a'' (Some 3) None 2)
     = [''a'', ''b''] \<and>
   map_of (cache (set_cache (run (newCache 2 1000)
      [(SetOp ''a'' (Some (1::nat)) None, 0), (SetOp ''b'' (Some 2) None, 1)]) ''a'' (Some 3) None 2)) ''a''
     = Some \<lparr>entryValue = Some 3, expiry = 1002, createdAt = 2\<rparr>"
proof -
  let ?c = "run (newCache 2 1000)
      [(SetOp ''a'' (Some (1::nat)) None, 0), (SetOp ''b'' (Some 2) None, 1)]"
  have c: "cache ?c = [(''a'', \<lparr>entryValue = Some 1, expiry = 1000, createdAt = 0\<rparr>),
       (''b'', \<lparr>entryValue = Some 2, expiry = 1001, createdAt = 1\<rparr>)]"
    by (rule refresh_state)
  have pre: "map_of (cache ?c) ''a'' = Some \<lparr>entryValue = Some 1, expiry = 1000, createdAt = 0\<rparr>"
    unfolding c by simp
  have d: "defaultTTL ?c = 1000" by code_simp
  from set_existing_keeps_position [where c = ?c and key = "''a''"
      and old = "\<lparr>entryValue = Some 1, expiry = 1000, createdAt = 0\<rparr>"
      and v = "Some 3" and ttlMs = None and now = 2] pre
  have 1: "keys (set_cache ?c ''a'' (Some 3) None 2) = keys ?c"
    and 2: "map_of (cache (set_cache ?c ''a'' (Some 3) None 2)) =
        (map_of (cache ?c))(''a'' \<mapsto> \<lparr>entryValue = Some 3,
           expiry = 2 + (case None of None \<Rightarrow> defaultTTL ?c
                           | Some t \<Rightarrow> if t = 0 then defaultTTL ?c else t),
           createdAt = 2\<rparr>)"
    by blast+
  have k: "keys ?c = [''a'', ''b'']" unfolding keys_def c by simp
  have "map_of (cache (set_cache ?c ''a'' (Some 3) None 2)) ''a''
     = Some \<lparr>entryValue = Some 3, expiry = 1002, createdAt = 2\<rparr>"
    unfolding 2 d by simp
  with 1 k pre show ?thesis by (simp del: run_Cons run_Nil)
qed

subsection \<open>Gap analysis and suggestions\<close>

lemma catalog_frontend_distinct: "distinct (map (toLowerCase \<circ> name) coreSkills_frontend)"
  by code_simp

lemma catalog_backend_distinct: "distinct (map (toLowerCase \<circ> name) coreSkills_backend)"
  by code_simp

lemma catalog_fullstack_distinct: "distinct (map (toLowerCase \<circ> name) coreSkills_fullstack)"
  by code_simp


lemma getCoreSkills_cases:
  assumes "getCoreSkills track = Inr cs"
  shows "cs = coreSkills_frontend \<or> cs = coreSkills_backend \<or> cs = coreSkills_fullstack"
  using assms
  by (auto simp: getCoreSkills_def getCoreSkillsIn_def ROADMAPS_def split: if_splits)

lemma shipped_catalog_distinct:
  "getCoreSkills track = Inr cs \<Longrightarrow> distinct (map (toLowerCase \<circ> name) cs)"
  using getCoreSkills_cases catalog_frontend_distinct catalog_backend_distinct
    catalog_fullstack_distinct by blast


lemma find_distinct:
  "distinct (map f xs) \<Longrightarrow> c \<in> set xs \<Longrightarrow> find (\<lambda>s. f s = f c) xs = Some c"
  by (induction xs) auto

lemma find_absent: "f' \<notin> f ` set xs \<Longrightarrow> find (\<lambda>s. f s = f') xs = None"
  by (induction xs) auto

lemma withWeights_ok:
  assumes "getCoreSkillsIn roadmaps track = Inr cs"
  shows "withWeights roadmaps track ss =
     Inr (map (\<lambda>s. \<lparr>gap_skill = s,
                     gap_weight = (case find (\<lambda>x. toLowerCase (name x) = toLowerCase s) cs of
                                     None \<Rightarrow> 0 | Some x \<Rightarrow> weight x)\<rparr>) ss)"
  using assms by (induction ss) (simp_all add: getSkillWeightIn_def)

lemma findGaps_shipped:
  assumes "getCoreSkills track = Inr cs"
  shows "findGaps track users names =
     Inr (map (\<lambda>s. \<lparr>gap_skill = s,
                     gap_weight = (case find (\<lambda>x. toLowerCase (name x) = toLowerCase s) cs of
                                     None \<Rightarrow> 0 | Some x \<Rightarrow> weight x)\<rparr>)
            (filter (\<lambda>c. toLowerCase c \<notin> toLowerCase ` set users) names))"
  using assms withWeights_ok [of ROADMAPS track cs]
  by (simp add: findGaps_def findGapsIn_def getCoreSkills_def)

text \<open>
  Claim C6. For every track with a catalog and every list of user skill names,
  \<open>findGaps\<close> on the track's core skill names succeeds; its gaps are the core names that
  are not, up to case, among the user's names, in catalog order and without duplicates
  up to case; so a core skill is a gap exactly when the user does not have it. Each gap
  carries the weight of its catalog entry, and \<open>getSkillWeight\<close> gives 0, not an error, for
  a name the catalog does not have.
\<close>

theorem findGaps_partition:
  "(getCoreSkills track = Inr cs \<longrightarrow>
      (\<exists>gaps. findGaps track userSkillNames (map name cs) = Inr gaps \<and>
         map gap_skill gaps =
           filter (\<lambda>c. toLowerCase c \<notin> toLowerCase ` set userSkillNames) (map name cs) \<and>
         distinct (map (toLowerCase \<circ> gap_skill) gaps) \<and>
         (\<forall>c\<in>set cs. (name c \<in> gap_skill ` set gaps) =
                        (toLowerCase (name c) \<notin> toLowerCase ` set userSkillNames)) \<and>
         (\<forall>g\<in>set gaps. \<exists>c\<in>set cs. name c = gap_skill g \<and> gap_weight g = weight c))) \<and>
   (getCoreSkills track = Inr cs \<and> toLowerCase s \<notin> (toLowerCase \<circ> name) ` set cs \<longrightarrow>
      getSkillWeight track s = Inr 0)"
proof (intro conjI impI)
  assume cs: "getCoreSkills track = Inr cs"
  let ?w = "\<lambda>s. case find (\<lambda>x. toLowerCase (name x) = toLowerCase s) cs of
                   None \<Rightarrow> 0 | Some x \<Rightarrow> weight x"
  let ?names = "filter (\<lambda>c. toLowerCase c \<notin> toLowerCase ` set userSkillNames) (map name cs)"
  let ?gaps = "map (\<lambda>s. \<lparr>gap_skill = s, gap_weight = ?w s\<rparr>) ?names"
  have d: "distinct (map (toLowerCase \<circ> name) cs)" using cs by (rule shipped_catalog_distinct)
  have 1: "findGaps track userSkillNames (map name cs) = Inr ?gaps"
    using cs by (rule findGaps_shipped)
  have 2: "map gap_skill ?gaps = ?names" by (simp add: comp_def)
  have "distinct (map toLowerCase (map name cs))" using d by simp
  then have "distinct (map toLowerCase ?names)" by (rule distinct_map_filter)
  then have 3: "distinct (map (toLowerCase \<circ> gap_skill) ?gaps)" by (simp add: comp_def)
  have 4: "\<forall>c\<in>set cs. (name c \<in> gap_skill ` set ?gaps) =
                        (toLowerCase (name c) \<notin> toLowerCase ` set userSkillNames)"
  proof
    fix c assume "c \<in> set cs"
    have "gap_skill ` set ?gaps = set (map gap_skill ?gaps)" by (simp only: set_map)
    also have "\<dots> = set ?names" unfolding 2 ..
    finally show "(name c \<in> gap_skill ` set ?gaps) =
                        (toLowerCase (name c) \<notin> toLowerCase ` set userSkillNames)"
      using \<open>c \<in> set cs\<close> by auto
  qed
  have 5: "\<forall>g\<in>set ?gaps. \<exists>c\<in>set cs. name c = gap_skill g \<and> gap_weight g = weight c"
  proof
    fix g assume "g \<in> set ?gaps"
    then obtain s where s: "s \<in> set ?names" and g: "g = \<lparr>gap_skill = s, gap_weight = ?w s\<rparr>"
      by auto
    from s obtain c where c: "c \<in> set cs" "name c = s" by auto
    have "find (\<lambda>x. (toLowerCase \<circ> name) x = (toLowerCase \<circ> name) c) cs = Some c"
      using d c(1) by (rule find_distinct)
    then have "?w s = weight c" using c(2) by simp
    with c g show "\<exists>c\<in>set cs. name c = gap_skill g \<and> gap_weight g = weight c" by auto
  qed
  from 1 2 3 4 5 show "\<exists>gaps. findGaps track userSkillNames (map name cs) = Inr gaps \<and>
         map gap_skill gaps =
           filter (\<lambda>c. toLowerCase c \<notin> toLowerCase ` set userSkillNames) (map name cs) \<and>
         distinct (map (toLowerCase \<circ> gap_skill) gaps) \<and>
         (\<forall>c\<in>set cs. (name c \<in> gap_skill ` set gaps) =
                        (toLowerCase (name c) \<notin> toLowerCase ` set userSkillNames)) \<and>
         (\<forall>g\<in>set gaps. \<exists>c\<in>set cs. name c = gap_skill g \<and> gap_weight g = weight c)"
    by blast
next
  assume a: "getCoreSkills track = Inr cs \<and> toLowerCase s \<notin> (toLowerCase \<circ> name) ` set cs"
  then have "find (\<lambda>x. (toLowerCase \<circ> name) x = toLowerCase s) cs = None"
    by (intro find_absent) simp
  then show "getSkillWeight track s = Inr 0"
    using a by (simp add: getSkillWeight_def getSkillWeightIn_def getCoreSkills_def)
qed

lemma frontend_catalog: "getCoreSkills ''frontend'' = Inr coreSkills_frontend"
  by (simp add: getCoreSkills_def getCoreSkillsIn_def ROADMAPS_def)

lemma frontend_entries:
  "\<lparr>name = ''JavaScript'', weight = 10, category = ''fundamentals'', skillSection = None\<rparr>
     \<in> set coreSkills_frontend"
  "\<lparr>name = ''HTML'', weight = 10, category = ''fundamentals'', skillSection = None\<rparr>
     \<in> set coreSkills_frontend"
  by (simp_all add: coreSkills_frontend_def)

lemma frontend_no_rust: "toLowerCase ''Rust'' \<notin> (toLowerCase \<circ> name) ` set coreSkills_frontend"
  by code_simp

lemma lower_examples:
  "toLowerCase ''JavaScript'' \<notin> toLowerCase ` set [''html'', ''CSS'']"
  "toLowerCase ''HTML'' \<in> toLowerCase ` set [''html'', ''CSS'']"
  by code_simp+

theorem findGaps_partition_witness:
  "getCoreSkills ''frontend'' = Inr coreSkills_frontend \<and>
   (\<exists>gaps. findGaps ''frontend'' [''html'', ''CSS''] (map name coreSkills_frontend) = Inr gaps \<and>
      ''JavaScript'' \<in> gap_skill ` set gaps \<and> ''HTML'' \<notin> gap_skill ` set gaps) \<and>
   getSkillWeight ''frontend'' ''Rust'' = Inr 0"
proof -
  note T = findGaps_partition [where track = "''frontend''" and cs = coreSkills_frontend
      and userSkillNames = "[''html'', ''CSS'']" and s = "''Rust''"]
  from T frontend_catalog obtain gaps where
    g: "findGaps ''frontend'' [''html'', ''CSS''] (map name coreSkills_frontend) = Inr gaps"
    and iff: "\<forall>c\<in>set coreSkills_frontend. (name c \<in> gap_skill ` set gaps) =
                (toLowerCase (name c) \<notin> toLowerCase ` set [''html'', ''CSS''])"
    by blast
  from iff frontend_entries(1) lower_examples(1) have 1: "''JavaScript'' \<in> gap_skill ` set gaps"
    by fastforce
  from iff frontend_entries(2) lower_examples(2) have 2: "''HTML'' \<notin> gap_skill ` set gaps"
    by fastforce
  from T frontend_catalog frontend_no_rust have 3: "getSkillWeight ''frontend'' ''Rust'' = Inr 0"
    by blast
  from g 1 2 3 frontend_catalog show ?thesis by blast
qed

























end
